theory Spec2Isabelle
  imports Complex_Main
begin

section \<open>Embedding of \<open>dashlivesim/dashlib/dash_proxy.py\<close>\<close>

text \<open>
  The module is Python 2 code (\<open>has_key\<close>, integer \<open>/\<close>): the configured durations,
  segment numbers and times are Python integers, modelled as \<open>int\<close>. On integers
  \<open>divmod\<close> and \<open>/\<close> are floor division and the remainder has the sign of the divisor,
  which is what \<open>div\<close> and \<open>mod\<close> on \<open>int\<close> are. The wall-clock sample \<open>now\<close> is a
  float; every finite float is a rational number, Python compares a float with an
  integer exactly, and \<open>int(now)\<close> truncates exactly, so \<open>now_float\<close> is a \<open>rat\<close>.
  Float arithmetic itself (a division or subtraction that rounds) is not modelled:
  where the module computes with floats, the outcome of that computation is part of
  the input (see \<open>Timed\<close> and \<open>Float_offset\<close> below), and the differences that
  the error messages print to one decimal are left out of the messages.
  An exception that the module does not catch is the \<open>Inl\<close> of the result.
\<close>

datatype py_error = ZeroDivisionError | IndexError | TypeError | ValueError | OverflowError

definition py_int :: "rat \<Rightarrow> int" where
  "py_int x = (if 0 \<le> x then \<lfloor>x\<rfloor> else \<lceil>x\<rceil>)"

fun split_on :: "char \<Rightarrow> string \<Rightarrow> string list" where
  "split_on c [] = [[]]"
| "split_on c (x # xs) =
     (if x = c then [] # split_on c xs
      else (case split_on c xs of [] \<Rightarrow> [[x]] | w # ws \<Rightarrow> (x # w) # ws))"

fun join_on :: "char \<Rightarrow> string list \<Rightarrow> string" where
  "join_on c [] = []"
| "join_on c [w] = w"
| "join_on c (w # ws) = w @ c # join_on c ws"

subsection \<open>Configuration objects\<close>

text \<open>
  \<open>cfg.vod_infos[i]\<close>: the fields of a VoD asset that the module reads;
  \<open>media_data['video']['total_duration']\<close> and \<open>['timescale']\<close> are the last two.
\<close>

record vod_info =
  seg_duration :: int
  wrap_seconds :: int
  first_segment_in_loop :: int
  video_total_duration :: int
  video_timescale :: int

text \<open>\<open>cfg.reps[i]\<close>, a dictionary with the keys \<open>id\<close>, \<open>timescale\<close>, \<open>content_type\<close>.\<close>

record rep =
  rep_id :: string
  timescale :: int
  content_type :: string

text \<open>
  A file name as \<open>process_media_segment\<close> reads it after \<open>splitext\<close>:
  \<^item> \<open>Numbered n e\<close>: a stem that is the decimal integer \<open>n\<close> (\<open>int(seg_base)\<close>), with
    the extension \<open>e\<close>;
  \<^item> \<open>Timed q e\<close>: a stem \<open>t\<close> followed by a number. Line 322 computes
    \<open>int(round(float(seg_base[1:]) / seg_dur / timescale))\<close> in double arithmetic;
    \<open>q seg_dur timescale\<close> is the outcome of that line (the number, or the exception
    raised) for the segment duration and the timescale (\<open>None\<close> when no
    representation matches) of the request;
  \<^item> \<open>Plain s\<close>: any other name (a manifest or init-segment name, or a stem on which
    \<open>int\<close> or \<open>float\<close> raises).
\<close>

datatype filename =
    Numbered int string
  | Timed "int \<Rightarrow> int option \<Rightarrow> py_error + int" string
  | Plain string

text \<open>
  \<open>cfg.availability_time_offset_in_s\<close>: a Python integer (\<open>-1\<close> stands for an
  unbounded offset), or a finite float other than \<open>-1.0\<close>. For a float offset \<open>x\<close>,
  \<open>Float_offset sub\<close> gives with \<open>sub k\<close> the outcome of the float subtraction
  \<open>k - x\<close> of line 180 for the integer \<open>k\<close> (the double computed, or the exception
  when \<open>k\<close> is too large for a float). The float \<open>-1.0\<close> compares equal to \<open>-1\<close> and
  is \<open>Int_offset (-1)\<close>.
\<close>

datatype offset = Int_offset int | Float_offset "int \<Rightarrow> py_error + rat"

text \<open>
  An entry of \<open>cfg.multi_url\<close> as lines 193-195 read it: the string \<open>"u10_d5"\<close> is
  \<open>a_var = "u10"\<close>, \<open>b_var = "d5"\<close>, that is the marks \<open>a_var[0]\<close>, \<open>b_var[0]\<close> and the
  durations \<open>dur1 = int(a_var[1:])\<close>, \<open>dur2 = int(b_var[1:])\<close>.
\<close>

record loss_spec =
  a_mark :: char
  dur1 :: int
  b_mark :: char
  dur2 :: int

record cfg =
  ext :: string
  content_name :: string
  rel_path :: string
  filenames :: "filename list"
  vod_infos :: "vod_info list"
  reps :: "rep list"
  repId :: string
  availability_start_time_in_s :: int
  init_seg_avail_offset :: int
  availability_time_offset_in_s :: offset
  availability_end_time :: "int option"
  start_from_ast :: int
  start_nr :: int
  last_segment_numbers :: "int list"
  initial_durations :: "int list"
  loop_duration :: int
  multi_url :: "loss_spec list"
  scte35_per_minute :: int

text \<open>The attributes of \<open>DashProvider\<close> that the timing code reads; \<open>self.now = int(now)\<close>.\<close>

record provider =
  content_dir :: string
  now_float :: rat

definition now :: "provider \<Rightarrow> int" where
  "now p = py_int (now_float p)"

subsection \<open>Responses\<close>

text \<open>
  \<open>error_response(msg)\<close> returns \<open>{'ok': False, 'pl': msg + "\n"}\<close>. Each message of the
  module is a constructor carrying the file name and the integers formatted into it
  (the three timing messages also print a float difference, which is left out):
  \<^item> \<open>Too_early_init\<close>: "Request for %s was %.1fs too early" (line 173);
  \<^item> \<open>Before_first_seg_ast\<close>: "Request %s before first seg AST. %.1fs too early." (line 184);
  \<^item> \<open>After_aet\<close>: "Request for %s after AET. %.1fs too late" (line 189);
  \<^item> \<open>Server_down\<close>: "BaseURL server down at %d" (lines 202, 207);
  \<^item> \<open>Bad_nr_reps\<close>: "Bad nr of representations: %d" (line 295);
  \<^item> \<open>Segment_before_first\<close>: "Request for segment %d before first %d" (line 327);
  \<^item> \<open>Segment_beyond_last\<close>: "Request for segment %d beyond last (%d)" (line 331).
\<close>

datatype error_msg =
    Too_early_init filename
  | Before_first_seg_ast filename
  | After_aet filename
  | Server_down int
  | Bad_nr_reps nat
  | Segment_before_first int int
  | Segment_beyond_last int int

text \<open>
  The arguments of one \<open>MediaSegmentFilter(...)\<close> call (line 383). The file is
  \<open>join(content_dir, content_name, rel_path, "%d%s" % (vod_nr, seg_ext))\<close>, kept as its
  five components. The bytes that the filter returns are the collaborator's; the
  response of the model is the call that was issued.
\<close>

record filter_call =
  media_seg_file :: "string \<times> string \<times> string \<times> int \<times> string"
  fc_seg_nr :: int
  fc_seg_duration :: int
  fc_offset_at_loop_start :: int
  fc_lmsg :: bool
  fc_timescale :: int
  fc_scte35_per_minute :: int
  fc_rel_path :: string
  fc_is_ttml :: bool

text \<open>
  A period of \<open>generate_period_data\<close>; the source formats \<open>id\<close>, \<open>periodDuration\<close>,
  \<open>start\<close>, \<open>startNumber\<close> and \<open>presentationTimeOffset\<close> as strings of these integers.
\<close>

record period_data =
  pd_id :: int
  periodDuration :: int
  pd_start :: int
  startNumber :: int
  pd_duration :: int
  presentationTimeOffset :: int
  start_s :: int

record base_data =
  bd_timescale :: int
  bd_start :: int
  bd_duration :: int
  bd_segDuration :: int
  bd_startNumber :: int

datatype init_data =
    Init_filtered "string \<times> string \<times> string \<times> filename"
  | Init_muxed "string \<times> string \<times> string \<times> string \<times> filename"
               "string \<times> string \<times> string \<times> string \<times> filename"

datatype seg_content = Filtered filter_call | Muxed filter_call filter_call

datatype response =
    Error_response error_msg
  | Mpd_xml "period_data list"
  | Init_segment init_data
  | Media_segment seg_content
  | Unknown_file_extension string

subsection \<open>\<open>generate_period_data\<close> and \<open>generate_dynamic_mpd\<close>\<close>

text \<open>
  \<open>generate_period_data(base_data, mpd_data, now)\<close> reads neither \<open>mpd_data\<close> nor \<open>now\<close>.
  \<open>start / seg_dur\<close> raises on a zero segment duration.
\<close>

fun generate_period_data :: "base_data list \<Rightarrow> py_error + period_data list" where
  "generate_period_data [] = Inr []"
| "generate_period_data (d # ds) =
     (let start = bd_start d; seg_dur = bd_segDuration d in
      if seg_dur = 0 then Inl ZeroDivisionError
      else
        (case generate_period_data ds of
           Inl e \<Rightarrow> Inl e
         | Inr ps \<Rightarrow>
             Inr (\<lparr>pd_id = start, periodDuration = bd_duration d, pd_start = start,
                   startNumber = bd_startNumber d + start div seg_dur,
                   pd_duration = seg_dur,
                   presentationTimeOffset = start * bd_timescale d,
                   start_s = start\<rparr> # ps)))"

text \<open>
  The loop of lines 267-274 over \<open>range(len(cfg.vod_infos))\<close>, with the running
  \<open>start\<close>; \<open>mpd_filenames\<close> has one entry for each of \<open>cfg.filenames\<close>.
\<close>

fun build_base_data :: "int \<Rightarrow> int \<Rightarrow> vod_info list \<Rightarrow> filename list \<Rightarrow> py_error + base_data list" where
  "build_base_data start nr [] fs = Inr []"
| "build_base_data start nr (v # vs) fs =
     (if video_timescale v = 0 then Inl ZeroDivisionError
      else
        (let timeinseconds = video_total_duration v div video_timescale v in
         case fs of
           [] \<Rightarrow> Inl IndexError
         | f # fs' \<Rightarrow>
             (case build_base_data (start + timeinseconds) nr vs fs' of
                Inl e \<Rightarrow> Inl e
              | Inr bs \<Rightarrow>
                  Inr (\<lparr>bd_timescale = video_timescale v, bd_start = start,
                        bd_duration = timeinseconds, bd_segDuration = seg_duration v,
                        bd_startNumber = nr\<rparr> # bs))))"

text \<open>
  The manifest is serialised by \<open>mpdprocessor\<close>, which is handed the period list; the
  top-level \<open>mpd_data\<close> fields come from \<open>timeformatconversions\<close> and are not modelled.
\<close>

definition generate_dynamic_mpd :: "cfg \<Rightarrow> py_error + response" where
  "generate_dynamic_mpd c =
     (case build_base_data (start_from_ast c) (start_nr c) (vod_infos c) (filenames c) of
        Inl e \<Rightarrow> Inl e
      | Inr bs \<Rightarrow>
          (case generate_period_data bs of
             Inl e \<Rightarrow> Inl e
           | Inr ps \<Rightarrow> Inr (Mpd_xml ps)))"

subsection \<open>\<open>sort_by_period\<close>\<close>

text \<open>
  The loop of lines 222-231: \<open>prog\<close> accumulates the wrap durations, and the first
  asset at which \<open>time > prog + vod_info.seg_duration\<close> triggers the rotation and the
  \<open>break\<close>.
\<close>

fun rotation_found :: "int \<Rightarrow> int \<Rightarrow> vod_info list \<Rightarrow> bool" where
  "rotation_found time prog [] = False"
| "rotation_found time prog (v # vs) =
     (let prog' = prog + wrap_seconds v in
      if time > prog' + seg_duration v then True else rotation_found time prog' vs)"

definition wrap_total :: "vod_info list \<Rightarrow> int" where
  "wrap_total vs = sum_list (map wrap_seconds vs)"

definition sort_by_period :: "cfg \<Rightarrow> int \<Rightarrow> py_error + cfg" where
  "sort_by_period c now_s =
     (let total = wrap_total (vod_infos c);
          diff = now_s - availability_start_time_in_s c in
      if total = 0 then Inl ZeroDivisionError
      else
        (let loops = diff div total;
             time = diff mod total;
             step1 =
               (if rotation_found time 0 (vod_infos c) then
                  (case filenames c of
                     [] \<Rightarrow> Inl IndexError
                   | f # fs \<Rightarrow>
                       Inr (c\<lparr>vod_infos := tl (vod_infos c @ [hd (vod_infos c)]),
                              filenames := fs @ [f],
                              start_from_ast := start_from_ast c + wrap_seconds (hd (vod_infos c))\<rparr>))
                else Inr c)
         in
         case step1 of
           Inl e \<Rightarrow> Inl e
         | Inr c1 \<Rightarrow>
             (case vod_infos c1 of
                [] \<Rightarrow> Inl IndexError
              | v0 # _ \<Rightarrow>
                  (let step2 =
                     (if now_s - availability_start_time_in_s c1 > wrap_seconds v0 then
                        (let first_vod_infos = last (vod_infos c1) in
                         case filenames c1 of
                           [] \<Rightarrow> Inl IndexError
                         | _ # _ \<Rightarrow>
                             Inr (c1\<lparr>vod_infos := first_vod_infos # vod_infos c1,
                                     filenames := last (filenames c1) # filenames c1,
                                     start_from_ast := start_from_ast c1 - wrap_seconds first_vod_infos\<rparr>))
                      else Inr c1)
                   in
                   case step2 of
                     Inl e \<Rightarrow> Inl e
                   | Inr c2 \<Rightarrow> Inr (c2\<lparr>start_from_ast := start_from_ast c2 + loops * total\<rparr>)))))"

subsection \<open>\<open>process_init_segment\<close>\<close>

definition process_init_segment :: "provider \<Rightarrow> cfg \<Rightarrow> py_error + response" where
  "process_init_segment p c =
     (let nr_reps = length (reps c) in
      if nr_reps = 1 then
        (case filenames c of
           [] \<Rightarrow> Inl IndexError
         | f # _ \<Rightarrow> Inr (Init_segment (Init_filtered (content_dir p, content_name c, rel_path c, f))))
      else if nr_reps = 2 then
        (let com_path = join_on CHR ''/'' (butlast (split_on CHR ''/'' (rel_path c))) in
         case filenames c of
           [] \<Rightarrow> Inl IndexError
         | f # _ \<Rightarrow>
             Inr (Init_segment (Init_muxed
               (content_dir p, content_name c, com_path, rep_id (reps c ! 0), f)
               (content_dir p, content_name c, com_path, rep_id (reps c ! 1), f))))
      else Inr (Error_response (Bad_nr_reps nr_reps)))"

subsection \<open>\<open>process_media_segment\<close> and \<open>filter_media_segment\<close>\<close>

text \<open>The nested \<open>get_timescale\<close>: the timescale of the first representation whose id is
  \<open>cfg.repId\<close>, or \<open>None\<close>.\<close>

definition get_timescale :: "cfg \<Rightarrow> int option" where
  "get_timescale c = map_option timescale (find (\<lambda>r. rep_id r = repId c) (reps c))"

text \<open>
  Lines 318-324: \<open>seg_base[0]\<close> raises on an empty name; a stem \<open>t...\<close> gives the
  outcome of line 322; any other stem gives \<open>int(seg_base)\<close>, which raises on a name
  that is not a number.
\<close>

definition requested_seg_nr :: "filename \<Rightarrow> int \<Rightarrow> int option \<Rightarrow> py_error + int" where
  "requested_seg_nr seg_name seg_dur ts =
     (case seg_name of
        Numbered n e \<Rightarrow> Inr n
      | Timed q e \<Rightarrow> q seg_dur ts
      | Plain s \<Rightarrow> (if s = [] then Inl IndexError else Inl ValueError))"

definition seg_ext_of :: "filename \<Rightarrow> string" where
  "seg_ext_of seg_name = (case seg_name of Numbered n e \<Rightarrow> e | Timed q e \<Rightarrow> e | Plain s \<Rightarrow> [])"

definition filter_media_segment ::
  "provider \<Rightarrow> cfg \<Rightarrow> rep \<Rightarrow> string \<Rightarrow> int \<Rightarrow> int \<Rightarrow> string \<Rightarrow> int \<Rightarrow> bool \<Rightarrow> py_error + filter_call" where
  "filter_media_segment p c r rel vod_nr seg_nr seg_ext offset_at_loop_start lmsg =
     (let scte35 = (if content_type r = ''video'' then scte35_per_minute c else 0);
          is_ttml = (content_type r = ''subtitles'') in
      case vod_infos c of
        [] \<Rightarrow> Inl IndexError
      | v0 # _ \<Rightarrow>
          Inr \<lparr>media_seg_file = (content_dir p, content_name c, rel, vod_nr, seg_ext),
               fc_seg_nr = seg_nr, fc_seg_duration = seg_duration v0,
               fc_offset_at_loop_start = offset_at_loop_start, fc_lmsg = lmsg,
               fc_timescale = timescale r, fc_scte35_per_minute = scte35,
               fc_rel_path = rel, fc_is_ttml = is_ttml\<rparr>)"

text \<open>
  Lines 359-374: one filter call when \<open>nr_reps == 1\<close>, otherwise (a plain \<open>else\<close>) two
  calls on \<open>cfg.reps[0]\<close> and \<open>cfg.reps[1]\<close>, muxed.
\<close>

definition dispatch_media ::
  "provider \<Rightarrow> cfg \<Rightarrow> int \<Rightarrow> int \<Rightarrow> string \<Rightarrow> int \<Rightarrow> bool \<Rightarrow> py_error + response" where
  "dispatch_media p c vod_nr seg_nr seg_ext offset_at_loop_start lmsg =
     (let nr_reps = length (reps c) in
      if nr_reps = 1 then
        (case filter_media_segment p c (reps c ! 0) (rel_path c) vod_nr seg_nr seg_ext
                offset_at_loop_start lmsg of
           Inl e \<Rightarrow> Inl e
         | Inr s \<Rightarrow> Inr (Media_segment (Filtered s)))
      else
        (let common_path_parts = butlast (split_on CHR ''/'' (rel_path c)) in
         case reps c of
           r0 # r1 # _ \<Rightarrow>
             (let rel_path1 = join_on CHR ''/'' (common_path_parts @ [rep_id r0]);
                  rel_path2 = join_on CHR ''/'' (common_path_parts @ [rep_id r1]) in
              case filter_media_segment p c r0 rel_path1 vod_nr seg_nr seg_ext
                     offset_at_loop_start lmsg of
                Inl e \<Rightarrow> Inl e
              | Inr seg1 \<Rightarrow>
                  (case filter_media_segment p c r1 rel_path2 vod_nr seg_nr seg_ext
                          offset_at_loop_start lmsg of
                     Inl e \<Rightarrow> Inl e
                   | Inr seg2 \<Rightarrow> Inr (Media_segment (Muxed seg1 seg2))))
         | _ \<Rightarrow> Inl IndexError))"

text \<open>Line 325: \<open>seg_start_nr = cfg.start_nr == -1 and 1 or cfg.start_nr\<close>.\<close>

definition seg_start_nr :: "cfg \<Rightarrow> int" where
  "seg_start_nr c = (if start_nr c = - 1 then 1 else start_nr c)"

text \<open>
  \<open>process_media_segment(cfg, now_float)\<close>; the body never reads \<open>now_float\<close> (the only
  statements that did are commented out, lines 336-341).
\<close>

definition process_media_segment :: "provider \<Rightarrow> cfg \<Rightarrow> py_error + response" where
  "process_media_segment p c =
     (case vod_infos c of
        [] \<Rightarrow> Inl IndexError
      | v0 # _ \<Rightarrow>
          (let seg_dur = seg_duration v0 in
           case filenames c of
             [] \<Rightarrow> Inl IndexError
           | seg_name # _ \<Rightarrow>
               (case requested_seg_nr seg_name seg_dur (get_timescale c) of
                  Inl e \<Rightarrow> Inl e
                | Inr seg_nr \<Rightarrow>
                    (let seg_ext = seg_ext_of seg_name;
                         seg_start = seg_start_nr c in
                     if seg_nr < seg_start then
                       Inr (Error_response (Segment_before_first seg_nr seg_start))
                     else if length (last_segment_numbers c) > 0 \<and>
                             seg_nr > last (last_segment_numbers c) then
                       Inr (Error_response
                              (Segment_beyond_last seg_nr (last (last_segment_numbers c))))
                     else
                       (let lmsg = (seg_nr \<in> set (last_segment_numbers c));
                            seg_time = (seg_nr - seg_start) * seg_dur
                                         + availability_start_time_in_s c;
                            diff = seg_time - availability_start_time_in_s c in
                        if loop_duration c = 0 then Inl ZeroDivisionError
                        else
                          (let loops = diff div loop_duration c;
                               time = diff mod loop_duration c in
                           case initial_durations c of
                             [] \<Rightarrow> Inl IndexError
                           | d0 # _ \<Rightarrow>
                               (let last_d = (if time \<ge> d0 then d0 else 0) in
                                if seg_dur = 0 then Inl ZeroDivisionError
                                else
                                  (let seg_nr_in_loop = (time - last_d) div seg_dur;
                                       offset_at_loop_start = loops * loop_duration c + last_d;
                                       vod_nr = seg_nr_in_loop + first_segment_in_loop v0 in
                                   dispatch_media p c vod_nr seg_nr seg_ext
                                     offset_at_loop_start lmsg))))))))"

subsection \<open>\<open>parse_url\<close>\<close>

text \<open>
  Lines 192-208, for the single entry of \<open>cfg.multi_url\<close>: whether one of the
  \<open>num_loop\<close> repetitions puts \<open>now % 60\<close> in a down interval.
  \<open>ceil(60.0 / float(total_dur))\<close> is the ceiling of the exact quotient for every
  nonzero integer \<open>total_dur\<close>, and \<open>range\<close> of a non-positive number is empty.
\<close>

definition server_down :: "int \<Rightarrow> loss_spec \<Rightarrow> py_error + bool" where
  "server_down now_s l =
     (let total_dur = dur1 l + dur2 l in
      if total_dur = 0 then Inl ZeroDivisionError
      else
        (let num_loop = \<lceil>(60 :: rat) / of_int total_dur\<rceil>;
             now_mod_60 = now_s mod 60 in
         if a_mark l = CHR ''u'' \<and> b_mark l = CHR ''d'' then
           Inr (list_ex (\<lambda>i. int i * total_dur + dur1 l < now_mod_60 \<and>
                              now_mod_60 \<le> (int i + 1) * total_dur) [0..<nat num_loop])
         else if a_mark l = CHR ''d'' \<and> b_mark l = CHR ''u'' then
           Inr (list_ex (\<lambda>i. int i * total_dur < now_mod_60 \<and>
                              now_mod_60 \<le> int i * total_dur + dur1 l) [0..<nat num_loop])
         else Inr False))"

text \<open>
  A Python number that is an integer or a float, and its value. A float subtraction
  with an integer operand converts the integer to a double first, which raises
  \<open>OverflowError\<close> when the integer rounds beyond the largest double; the differences
  printed by the timing messages are such subtractions.
\<close>

datatype py_num = Py_int int | Py_float rat

fun num_value :: "py_num \<Rightarrow> rat" where
  "num_value (Py_int k) = of_int k"
| "num_value (Py_float x) = x"

fun float_diff_raises :: "py_num \<Rightarrow> bool" where
  "float_diff_raises (Py_int k) = (\<bar>k\<bar> \<ge> 2 ^ 1024 - 2 ^ 970)"
| "float_diff_raises (Py_float x) = False"

text \<open>Lines 177-181. With an integer offset the sum is an integer; with a float offset
  it is the double that the subtraction gives.\<close>

definition first_segment_ast :: "cfg \<Rightarrow> py_error + py_num" where
  "first_segment_ast c =
     (case availability_time_offset_in_s c of
        Int_offset k \<Rightarrow>
          (if k = - 1 then Inr (Py_int (availability_start_time_in_s c))
           else
             (case vod_infos c of
                [] \<Rightarrow> Inl IndexError
              | v0 # _ \<Rightarrow>
                  Inr (Py_int (availability_start_time_in_s c + seg_duration v0 - k))))
      | Float_offset sub \<Rightarrow>
          (case vod_infos c of
             [] \<Rightarrow> Inl IndexError
           | v0 # _ \<Rightarrow>
               (case sub (availability_start_time_in_s c + seg_duration v0) of
                  Inl e \<Rightarrow> Inl e
                | Inr x \<Rightarrow> Inr (Py_float x))))"

definition EXTRA_TIME_AFTER_END_IN_S :: int where
  "EXTRA_TIME_AFTER_END_IN_S = 60"

text \<open>
  \<open>parse_url\<close>, from the configuration that \<open>ConfigProcessor\<close> resolved. The pause
  \<open>time.sleep(.500)\<close> has no value and is left out. \<open>handle_request\<close> is this call.
\<close>

definition parse_url :: "provider \<Rightarrow> cfg \<Rightarrow> py_error + response" where
  "parse_url p c0 =
     (case sort_by_period c0 (now p) of
        Inl e \<Rightarrow> Inl e
      | Inr c \<Rightarrow>
          if ext c = ''.mpd'' then generate_dynamic_mpd c
          else if ext c = ''.mp4'' then
            (if now p < availability_start_time_in_s c - init_seg_avail_offset c then
               (if float_diff_raises
                     (Py_int (availability_start_time_in_s c - init_seg_avail_offset c))
                then Inl OverflowError
                else
                  (case filenames c of
                     [] \<Rightarrow> Inl IndexError
                   | f # _ \<Rightarrow> Inr (Error_response (Too_early_init f))))
             else process_init_segment p c)
          else if ext c = ''.m4s'' then
            (case first_segment_ast c of
               Inl e \<Rightarrow> Inl e
             | Inr fsa \<Rightarrow>
                 if now_float p < num_value fsa then
                   (if float_diff_raises fsa then Inl OverflowError
                    else
                      (case filenames c of
                         [] \<Rightarrow> Inl IndexError
                       | f # _ \<Rightarrow> Inr (Error_response (Before_first_seg_ast f))))
                 else if availability_end_time c \<noteq> None \<and>
                         now p > the (availability_end_time c) + EXTRA_TIME_AFTER_END_IN_S then
                   (if float_diff_raises
                         (Py_int (the (availability_end_time c) + EXTRA_TIME_AFTER_END_IN_S))
                    then Inl OverflowError
                    else
                      (case filenames c of
                         [] \<Rightarrow> Inl IndexError
                       | f # _ \<Rightarrow> Inr (Error_response (After_aet f))))
                 else
                   (case process_media_segment p c of
                      Inl e \<Rightarrow> Inl e
                    | Inr response \<Rightarrow>
                        if length (multi_url c) = 1 then
                          (case server_down (now p) (multi_url c ! 0) of
                             Inl e \<Rightarrow> Inl e
                           | Inr down \<Rightarrow>
                               if down then Inr (Error_response (Server_down (now p)))
                               else Inr response)
                        else Inr response))
          else Inr (Unknown_file_extension (ext c)))"

definition handle_request :: "provider \<Rightarrow> cfg \<Rightarrow> py_error + response" where
  "handle_request p c = parse_url p c"

subsection \<open>Auxiliary definitions for the statements\<close>

text \<open>The asset list after the loop of lines 222-231 (the first asset moved to the end when
  the loop found a rotation point).\<close>

definition forward_step :: "cfg \<Rightarrow> int \<Rightarrow> vod_info list" where
  "forward_step c n =
     (if rotation_found ((n - availability_start_time_in_s c) mod wrap_total (vod_infos c)) 0
           (vod_infos c)
      then tl (vod_infos c) @ [hd (vod_infos c)] else vod_infos c)"

text \<open>The filter calls behind a media response, and the VoD segment number in the file
  name of a call.\<close>

fun calls :: "seg_content \<Rightarrow> filter_call list" where
  "calls (Filtered s) = [s]"
| "calls (Muxed s1 s2) = [s1, s2]"

definition fc_vod_nr :: "filter_call \<Rightarrow> int" where
  "fc_vod_nr k = (case media_seg_file k of (d, n, r, v, e) \<Rightarrow> v)"

text \<open>A concrete single-asset configuration: one 40 s asset with 4 s segments, stream
  start at the epoch, start number 0, availability time offset \<open>-1\<close>.\<close>

definition asset_ex :: vod_info where
  "asset_ex = \<lparr>seg_duration = 4, wrap_seconds = 40, first_segment_in_loop = 1,
               video_total_duration = 3600000, video_timescale = 90000\<rparr>"

definition rep_video :: rep where
  "rep_video = \<lparr>rep_id = ''V1'', timescale = 90000, content_type = ''video''\<rparr>"

definition rep_audio :: rep where
  "rep_audio = \<lparr>rep_id = ''A1'', timescale = 48000, content_type = ''audio''\<rparr>"

definition rep_subs :: rep where
  "rep_subs = \<lparr>rep_id = ''S1'', timescale = 1000, content_type = ''subtitles''\<rparr>"

definition cfg_ex :: "string \<Rightarrow> filename \<Rightarrow> cfg" where
  "cfg_ex e f =
     \<lparr>ext = e, content_name = ''testpic'', rel_path = ''V1'', filenames = [f],
      vod_infos = [asset_ex], reps = [rep_video], repId = ''V1'',
      availability_start_time_in_s = 0, init_seg_avail_offset = 0,
      availability_time_offset_in_s = Int_offset (- 1), availability_end_time = None,
      start_from_ast = 0, start_nr = 0, last_segment_numbers = [],
      initial_durations = [40], loop_duration = 40, multi_url = [],
      scte35_per_minute = 0\<rparr>"

definition provider_ex :: "rat \<Rightarrow> provider" where
  "provider_ex t = \<lparr>content_dir = ''/content'', now_float = t\<rparr>"

text \<open>The entry \<open>"u10_d5"\<close> of \<open>cfg.multi_url\<close>: up for 10 s, down for 5 s.\<close>

definition u10_d5 :: loss_spec where
  "u10_d5 = \<lparr>a_mark = CHR ''u'', dur1 = 10, b_mark = CHR ''d'', dur2 = 5\<rparr>"

text \<open>
  Following the words of the specification, for the comparison of the manifest with
  the segment path: a period list advertises the segment number \<open>n\<close> when \<open>n\<close> lies in
  the number range of one of its periods, which starts at the period's \<open>startNumber\<close>
  and has one number for each segment that begins before the period's duration is
  over. This is the most generous reading: the numbers advertised as available at a
  given instant are among these.
\<close>

definition spec_manifest_advertises :: "period_data list \<Rightarrow> int \<Rightarrow> bool" where
  "spec_manifest_advertises ps n =
     list_ex (\<lambda>q. startNumber q \<le> n \<and> (n - startNumber q) * pd_duration q < periodDuration q) ps"

text \<open>A request for segment 13 with a first-loop boundary at 8 s and the terminal
  numbers 13 and 20.\<close>

definition cfg13 :: cfg where
  "cfg13 = (cfg_ex ''.m4s'' (Numbered 13 ''.m4s''))\<lparr>initial_durations := [8], last_segment_numbers := [13, 20]\<rparr>"




section \<open>Properties\<close>

subsection \<open>Basic facts\<close>

lemma wrap_total_simps [simp]:
  "wrap_total [] = 0"
  "wrap_total (v # vs) = wrap_seconds v + wrap_total vs"
  "wrap_total (xs @ ys) = wrap_total xs + wrap_total ys"
  by (simp_all add: wrap_total_def)

lemma forward_step_props:
  assumes "vod_infos c \<noteq> []"
  shows "forward_step c n \<noteq> []" "length (forward_step c n) = length (vod_infos c)"
    "wrap_total (forward_step c n) = wrap_total (vod_infos c)"
  using assms by (cases "vod_infos c"; simp add: forward_step_def)+

lemma sbp_vod_infos:
  assumes "sort_by_period c n = Inr c'"
  shows "vod_infos c \<noteq> [] \<and> vod_infos c' =
     (if n - availability_start_time_in_s c > wrap_seconds (hd (forward_step c n))
      then last (forward_step c n) # forward_step c n else forward_step c n)"
proof (cases "vod_infos c")
  case Nil
  with assms show ?thesis by (simp add: sort_by_period_def)
next
  case (Cons v vs)
  show ?thesis
  proof (cases "filenames c")
    case Nil
    with Cons assms show ?thesis
      by (auto simp add: sort_by_period_def Let_def forward_step_def
            simp del: rotation_found.simps split: if_splits)
  next
    case (Cons f fs)
    with \<open>vod_infos c = v # vs\<close> assms show ?thesis
      by (cases vs) (auto simp add: sort_by_period_def Let_def forward_step_def
            simp del: rotation_found.simps split: if_splits list.splits)
  qed
qed

lemma sbp_returns:
  assumes "wrap_total (vod_infos c) \<noteq> 0" "filenames c \<noteq> []"
  shows "\<exists>c'. sort_by_period c n = Inr c'"
proof -
  from assms(1) obtain v vs where v: "vod_infos c = v # vs" by (cases "vod_infos c") auto
  from assms(2) obtain f fs where f: "filenames c = f # fs" by (cases "filenames c") auto
  show ?thesis using v f assms(1)
    by (cases vs) (auto simp add: sort_by_period_def Let_def
          simp del: rotation_found.simps split: if_splits list.splits)
qed

lemma single_no_rotation:
  assumes "0 < wrap_seconds a" "0 \<le> seg_duration a"
  shows "\<not> rotation_found (d mod wrap_seconds a) 0 [a]"
proof -
  have "d mod wrap_seconds a < wrap_seconds a" using assms(1) by simp
  with assms(2) show ?thesis by (simp add: Let_def)
qed

lemma sort_by_period_frame:
  assumes "sort_by_period c n = Inr c'"
  shows "c' = c\<lparr>vod_infos := vod_infos c', filenames := filenames c',
                  start_from_ast := start_from_ast c'\<rparr>"
proof (cases "vod_infos c")
  case Nil
  with assms show ?thesis by (simp add: sort_by_period_def)
next
  case (Cons v vs)
  show ?thesis
  proof (cases "filenames c")
    case Nil
    with Cons assms show ?thesis
      by (auto simp add: sort_by_period_def Let_def
            simp del: rotation_found.simps split: if_splits)
  next
    case (Cons f fs)
    with \<open>vod_infos c = v # vs\<close> assms show ?thesis
      by (cases vs) (auto simp add: sort_by_period_def Let_def
            simp del: rotation_found.simps split: if_splits list.splits)
  qed
qed

lemma sort_by_period_keeps:
  assumes "sort_by_period c n = Inr c'"
  shows "ext c' = ext c" "multi_url c' = multi_url c"
    "availability_end_time c' = availability_end_time c"
    "availability_start_time_in_s c' = availability_start_time_in_s c"
    "availability_time_offset_in_s c' = availability_time_offset_in_s c"
    "init_seg_avail_offset c' = init_seg_avail_offset c"
    "reps c' = reps c" "repId c' = repId c" "start_nr c' = start_nr c"
    "last_segment_numbers c' = last_segment_numbers c"
    "initial_durations c' = initial_durations c" "loop_duration c' = loop_duration c"
    "rel_path c' = rel_path c" "content_name c' = content_name c"
    "scte35_per_minute c' = scte35_per_minute c"
  by (subst sort_by_period_frame [OF assms], simp)+

lemma dispatch_media_one:
  assumes "reps c = [r]" "vod_infos c = v0 # vs"
  shows "dispatch_media p c vn n e off lm =
     Inr (Media_segment (Filtered
       \<lparr>media_seg_file = (content_dir p, content_name c, rel_path c, vn, e),
        fc_seg_nr = n, fc_seg_duration = seg_duration v0,
        fc_offset_at_loop_start = off, fc_lmsg = lm,
        fc_timescale = timescale r,
        fc_scte35_per_minute = (if content_type r = ''video'' then scte35_per_minute c else 0),
        fc_rel_path = rel_path c, fc_is_ttml = (content_type r = ''subtitles'')\<rparr>))"
  using assms by (simp add: dispatch_media_def filter_media_segment_def Let_def)

lemma dispatch_media_two:
  assumes "reps c = r0 # r1 # rs" "vod_infos c = v0 # vs"
  shows "dispatch_media p c vn n e off lm =
     Inr (Media_segment (Muxed
       \<lparr>media_seg_file = (content_dir p, content_name c,
           join_on CHR ''/'' (butlast (split_on CHR ''/'' (rel_path c)) @ [rep_id r0]), vn, e),
        fc_seg_nr = n, fc_seg_duration = seg_duration v0,
        fc_offset_at_loop_start = off, fc_lmsg = lm,
        fc_timescale = timescale r0,
        fc_scte35_per_minute = (if content_type r0 = ''video'' then scte35_per_minute c else 0),
        fc_rel_path = join_on CHR ''/'' (butlast (split_on CHR ''/'' (rel_path c)) @ [rep_id r0]),
        fc_is_ttml = (content_type r0 = ''subtitles'')\<rparr>
       \<lparr>media_seg_file = (content_dir p, content_name c,
           join_on CHR ''/'' (butlast (split_on CHR ''/'' (rel_path c)) @ [rep_id r1]), vn, e),
        fc_seg_nr = n, fc_seg_duration = seg_duration v0,
        fc_offset_at_loop_start = off, fc_lmsg = lm,
        fc_timescale = timescale r1,
        fc_scte35_per_minute = (if content_type r1 = ''video'' then scte35_per_minute c else 0),
        fc_rel_path = join_on CHR ''/'' (butlast (split_on CHR ''/'' (rel_path c)) @ [rep_id r1]),
        fc_is_ttml = (content_type r1 = ''subtitles'')\<rparr>))"
  using assms by (simp add: dispatch_media_def filter_media_segment_def Let_def)

lemma dispatch_media_none:
  assumes "reps c = []"
  shows "dispatch_media p c vn n e off lm = Inl IndexError"
  using assms by (simp add: dispatch_media_def)

lemma dispatch_media_calls:
  assumes "reps c \<noteq> []" "vod_infos c \<noteq> []"
  shows "\<exists>s. dispatch_media p c vn n e off lm = Inr (Media_segment s) \<and>
           length (calls s) = (if length (reps c) = 1 then 1 else 2) \<and>
           map fc_vod_nr (calls s) = replicate (length (calls s)) vn \<and>
           map fc_offset_at_loop_start (calls s) = replicate (length (calls s)) off \<and>
           map fc_lmsg (calls s) = replicate (length (calls s)) lm \<and>
           map fc_seg_nr (calls s) = replicate (length (calls s)) n"
proof -
  from assms(2) obtain v0 vs where v: "vod_infos c = v0 # vs" by (cases "vod_infos c") auto
  from assms(1) obtain r rs where r: "reps c = r # rs" by (cases "reps c") auto
  show ?thesis
  proof (cases rs)
    case Nil
    with r dispatch_media_one [OF _ v, of r p vn n e off lm] show ?thesis
      by (simp add: fc_vod_nr_def)
  next
    case (Cons r1 rs')
    with r dispatch_media_two [OF _ v, of r r1 rs' p vn n e off lm] show ?thesis
      by (simp add: fc_vod_nr_def)
  qed
qed

lemma pms_accepted:
  assumes "vod_infos c = v0 # vs" "filenames c = f # fs"
    "requested_seg_nr f (seg_duration v0) (get_timescale c) = Inr n"
    "seg_start_nr c \<le> n"
    "last_segment_numbers c = [] \<or> n \<le> last (last_segment_numbers c)"
    "loop_duration c \<noteq> 0" "seg_duration v0 \<noteq> 0" "initial_durations c = d0 # ds"
  shows "process_media_segment p c =
     dispatch_media p c
       ((((n - seg_start_nr c) * seg_duration v0) mod loop_duration c
           - (if ((n - seg_start_nr c) * seg_duration v0) mod loop_duration c \<ge> d0 then d0 else 0))
          div seg_duration v0 + first_segment_in_loop v0)
       n (seg_ext_of f)
       (((n - seg_start_nr c) * seg_duration v0) div loop_duration c * loop_duration c
           + (if ((n - seg_start_nr c) * seg_duration v0) mod loop_duration c \<ge> d0 then d0 else 0))
       (n \<in> set (last_segment_numbers c))"
  using assms by (auto simp add: process_media_segment_def Let_def)

lemma pms_too_early:
  assumes "vod_infos c = v0 # vs" "filenames c = f # fs"
    "requested_seg_nr f (seg_duration v0) (get_timescale c) = Inr n"
    "n < seg_start_nr c"
  shows "process_media_segment p c = Inr (Error_response (Segment_before_first n (seg_start_nr c)))"
  using assms by (simp add: process_media_segment_def Let_def)

lemma pms_beyond:
  assumes "vod_infos c = v0 # vs" "filenames c = f # fs"
    "requested_seg_nr f (seg_duration v0) (get_timescale c) = Inr n"
    "seg_start_nr c \<le> n" "last_segment_numbers c \<noteq> []" "last (last_segment_numbers c) < n"
  shows "process_media_segment p c =
     Inr (Error_response (Segment_beyond_last n (last (last_segment_numbers c))))"
  using assms by (simp add: process_media_segment_def Let_def)

lemma sbp_single:
  assumes "vod_infos c = [a]" "0 < wrap_seconds a" "0 \<le> seg_duration a" "filenames c \<noteq> []"
  shows "sort_by_period c n =
     Inr (if n - availability_start_time_in_s c \<le> wrap_seconds a
          then c\<lparr>start_from_ast := start_from_ast c +
                  (n - availability_start_time_in_s c) div wrap_seconds a * wrap_seconds a\<rparr>
          else c\<lparr>vod_infos := [a, a], filenames := last (filenames c) # filenames c,
                 start_from_ast := start_from_ast c - wrap_seconds a +
                  (n - availability_start_time_in_s c) div wrap_seconds a * wrap_seconds a\<rparr>)"
proof -
  from assms(4) obtain f fs where f: "filenames c = f # fs" by (cases "filenames c") auto
  note nr = single_no_rotation [OF assms(2,3), of "n - availability_start_time_in_s c"]
  show ?thesis using assms(1,2) f nr
    by (simp add: sort_by_period_def Let_def del: rotation_found.simps)
qed

lemma parse_url_media:
  assumes "sort_by_period c (now p) = Inr c'" "ext c = ''.m4s''"
    "first_segment_ast c' = Inr fsa" "num_value fsa \<le> now_float p"
    "availability_end_time c = None \<or>
       now p \<le> the (availability_end_time c) + EXTRA_TIME_AFTER_END_IN_S"
  shows "parse_url p c =
     (case process_media_segment p c' of
        Inl e \<Rightarrow> Inl e
      | Inr r \<Rightarrow>
          if length (multi_url c) = 1 then
            (case server_down (now p) (multi_url c ! 0) of
               Inl e \<Rightarrow> Inl e
             | Inr down \<Rightarrow> if down then Inr (Error_response (Server_down (now p))) else Inr r)
          else Inr r)"
  using assms sort_by_period_keeps(1,2,3) [OF assms(1)]
  by (auto simp add: parse_url_def split: sum.splits)




lemmas eval_defs = parse_url_def handle_request_def sort_by_period_def process_media_segment_def
  dispatch_media_def filter_media_segment_def requested_seg_nr_def seg_ext_of_def seg_start_nr_def
  get_timescale_def first_segment_ast_def generate_dynamic_mpd_def
  now_def py_int_def provider_ex_def cfg_ex_def asset_ex_def rep_video_def rep_audio_def
  rep_subs_def u10_d5_def EXTRA_TIME_AFTER_END_IN_S_def spec_manifest_advertises_def Let_def

lemma media_request_accepted:
  assumes "sort_by_period c (now p) = Inr c'" "ext c = ''.m4s''"
    "first_segment_ast c' = Inr fsa" "num_value fsa \<le> now_float p"
    "availability_end_time c = None \<or>
       now p \<le> the (availability_end_time c) + EXTRA_TIME_AFTER_END_IN_S"
    "multi_url c = []"
    "vod_infos c' = v0 # vs" "seg_duration v0 \<noteq> 0" "filenames c' = Numbered n e # fs"
    "loop_duration c \<noteq> 0" "initial_durations c \<noteq> []" "reps c \<noteq> []"
  shows "(\<exists>s. parse_url p c = Inr (Media_segment s)) \<longleftrightarrow>
         (seg_start_nr c \<le> n \<and>
          (last_segment_numbers c = [] \<or> n \<le> last (last_segment_numbers c)))"
proof -
  note keep = sort_by_period_keeps [OF assms(1)]
  have pu: "parse_url p c = process_media_segment p c'"
    using parse_url_media [OF assms(1-5)] assms(6) by (simp split: sum.splits)
  have st: "seg_start_nr c' = seg_start_nr c" by (simp add: seg_start_nr_def keep)
  have rq: "requested_seg_nr (Numbered n e) (seg_duration v0) (get_timescale c') = Inr n"
    by (simp add: requested_seg_nr_def)
  from assms(11) obtain d0 ds where d: "initial_durations c' = d0 # ds"
    by (cases "initial_durations c") (auto simp add: keep)
  show ?thesis
  proof (cases "n < seg_start_nr c")
    case True
    with pms_too_early [OF assms(7,9) rq, of p] st pu show ?thesis by simp
  next
    case ge: False
    show ?thesis
    proof (cases "last_segment_numbers c \<noteq> [] \<and> last (last_segment_numbers c) < n")
      case True
      with pms_beyond [OF assms(7,9) rq, of p] ge st pu keep(10) show ?thesis by auto
    next
      case False
      then have ok: "last_segment_numbers c' = [] \<or> n \<le> last (last_segment_numbers c')"
        by (auto simp add: keep)
      from ge st have ge': "seg_start_nr c' \<le> n" by simp
      have l0: "loop_duration c' \<noteq> 0" using assms(10) by (simp add: keep)
      have r0: "reps c' \<noteq> []" using assms(12) by (simp add: keep)
      have v0: "vod_infos c' \<noteq> []" using assms(7) by simp
      from pms_accepted [OF assms(7,9) rq ge' ok l0 assms(8) d, of p]
           dispatch_media_calls [OF r0 v0]
      have "\<exists>s. process_media_segment p c' = Inr (Media_segment s)" by metis
      with pu ge False show ?thesis by auto
    qed
  qed
qed

subsection \<open>The asset list after \<open>sort_by_period\<close>\<close>

text \<open>
  Claim C2 (rotation conservation), as the code has it. For a catalog whose wrap
  durations do not sum to zero (and a non-empty file name list), \<open>sort_by_period\<close>
  returns, and the resulting asset list is non-empty. The forward step (first asset
  moved to the end) keeps the sum of the wrap durations. The second step, taken when
  \<open>now - availability_start_time_in_s\<close> exceeds the wrap duration of the asset then
  in front, copies the last asset to the front without removing it from the end: the
  sum is then the original sum plus the wrap duration of that asset, and it is the
  original sum otherwise.
\<close>

theorem sort_by_period_wrap_sum:
  assumes "wrap_total (vod_infos c) \<noteq> 0" "filenames c \<noteq> []"
  shows "\<exists>c'. sort_by_period c n = Inr c' \<and> vod_infos c' \<noteq> [] \<and>
           wrap_total (vod_infos c') =
             wrap_total (vod_infos c) +
               (if n - availability_start_time_in_s c > wrap_seconds (hd (forward_step c n))
                then wrap_seconds (last (forward_step c n)) else 0)"
proof -
  from sbp_returns [OF assms] obtain c' where c': "sort_by_period c n = Inr c'" ..
  from sbp_vod_infos [OF c'] have ne: "vod_infos c \<noteq> []" and
    eq: "vod_infos c' =
     (if n - availability_start_time_in_s c > wrap_seconds (hd (forward_step c n))
      then last (forward_step c n) # forward_step c n else forward_step c n)" by simp_all
  from eq forward_step_props [OF ne, of n] have "vod_infos c' \<noteq> []" by (simp split: if_splits)
  moreover from eq forward_step_props(3) [OF ne, of n]
  have "wrap_total (vod_infos c') =
             wrap_total (vod_infos c) +
               (if n - availability_start_time_in_s c > wrap_seconds (hd (forward_step c n))
                then wrap_seconds (last (forward_step c n)) else 0)"
    by (simp split: if_splits)
  ultimately show ?thesis using c' by blast
qed

text \<open>At \<open>now = 30\<close> the single 40 s asset is kept as it is, and the sum is 40.\<close>

theorem sort_by_period_wrap_sum_witness:
  "wrap_total (vod_infos (cfg_ex ''.mpd'' (Plain ''Manifest.mpd''))) \<noteq> 0 \<and>
   (\<exists>c'. sort_by_period (cfg_ex ''.mpd'' (Plain ''Manifest.mpd'')) 30 = Inr c' \<and>
      wrap_total (vod_infos c') = 40)"
proof -
  have "wrap_total (vod_infos (cfg_ex ''.mpd'' (Plain ''Manifest.mpd''))) \<noteq> 0"
    and "filenames (cfg_ex ''.mpd'' (Plain ''Manifest.mpd'')) \<noteq> []"
    by (simp_all add: cfg_ex_def asset_ex_def)
  from sort_by_period_wrap_sum [OF this, of 30] show ?thesis
    by (auto simp add: cfg_ex_def asset_ex_def forward_step_def)
qed

text \<open>At \<open>now = 100\<close> the same catalog (sum 40) comes back as two copies of the asset
  (sum 80).\<close>

theorem sort_by_period_wrap_sum_counterexample:
  "sort_by_period (cfg_ex ''.mpd'' (Plain ''Manifest.mpd'')) 100 =
     Inr ((cfg_ex ''.mpd'' (Plain ''Manifest.mpd''))
            \<lparr>vod_infos := [asset_ex, asset_ex],
             filenames := [Plain ''Manifest.mpd'', Plain ''Manifest.mpd''],
             start_from_ast := 40\<rparr>) \<and>
   wrap_total (vod_infos (cfg_ex ''.mpd'' (Plain ''Manifest.mpd''))) = 40 \<and>
   wrap_total [asset_ex, asset_ex] = 80"
  by (simp add: sort_by_period_def cfg_ex_def asset_ex_def Let_def)

text \<open>
  Claim C4 (single-asset catalog), as the code has it. For a catalog of exactly one
  asset with a positive wrap duration \<open>W\<close> and a non-negative segment duration, the
  loop of lines 222-231 never rotates. When \<open>now - availability_start_time_in_s \<le> W\<close>
  the assets and file names are unchanged and \<open>start_from_ast\<close> grows by
  \<open>loops * total\<close> only. When \<open>now - availability_start_time_in_s > W\<close> the asset and
  the last file name are copied to the front (two copies of the asset) and
  \<open>start_from_ast\<close> changes by \<open>loops * total - W\<close>.
\<close>

theorem sort_by_period_single:
  assumes "vod_infos c = [a]" "0 < wrap_seconds a" "0 \<le> seg_duration a" "filenames c \<noteq> []"
  shows "sort_by_period c n =
     Inr (if n - availability_start_time_in_s c \<le> wrap_seconds a
          then c\<lparr>start_from_ast := start_from_ast c +
                  (n - availability_start_time_in_s c) div wrap_seconds a * wrap_seconds a\<rparr>
          else c\<lparr>vod_infos := [a, a], filenames := last (filenames c) # filenames c,
                 start_from_ast := start_from_ast c - wrap_seconds a +
                  (n - availability_start_time_in_s c) div wrap_seconds a * wrap_seconds a\<rparr>)"
  by (rule sbp_single [OF assms])


theorem sort_by_period_single_witness:
  "sort_by_period (cfg_ex ''.m4s'' (Numbered 7 ''.m4s'')) 30 =
     Inr ((cfg_ex ''.m4s'' (Numbered 7 ''.m4s''))\<lparr>start_from_ast := 0\<rparr>) \<and>
   sort_by_period (cfg_ex ''.m4s'' (Numbered 7 ''.m4s'')) 130 =
     Inr ((cfg_ex ''.m4s'' (Numbered 7 ''.m4s''))
            \<lparr>vod_infos := [asset_ex, asset_ex],
             filenames := [Numbered 7 ''.m4s'', Numbered 7 ''.m4s''],
             start_from_ast := 80\<rparr>)"
  using sort_by_period_single [of "cfg_ex ''.m4s'' (Numbered 7 ''.m4s'')" asset_ex 30]
        sort_by_period_single [of "cfg_ex ''.m4s'' (Numbered 7 ''.m4s'')" asset_ex 130]
  by (simp add: cfg_ex_def asset_ex_def)

text \<open>At \<open>now = 90\<close> the one-asset catalog is returned with the asset twice.\<close>

theorem sort_by_period_single_counterexample:
  "vod_infos (cfg_ex ''.m4s'' (Numbered 7 ''.m4s'')) = [asset_ex] \<and>
   sort_by_period (cfg_ex ''.m4s'' (Numbered 7 ''.m4s'')) 90 =
     Inr ((cfg_ex ''.m4s'' (Numbered 7 ''.m4s''))
            \<lparr>vod_infos := [asset_ex, asset_ex],
             filenames := [Numbered 7 ''.m4s'', Numbered 7 ''.m4s''],
             start_from_ast := 40\<rparr>)"
  by (simp add: sort_by_period_def cfg_ex_def asset_ex_def Let_def)

subsection \<open>A catalog of total duration zero\<close>

text \<open>
  Claim C8, as the code has it. For a catalog whose wrap durations sum to zero,
  \<open>divmod(diff, total)\<close> in \<open>sort_by_period\<close> raises \<open>ZeroDivisionError\<close>; the module
  has no exception handler, so \<open>handle_request\<close> ends with that exception and
  returns no response, for every extension and every \<open>now\<close>.
\<close>

theorem zero_total_raises:
  assumes "wrap_total (vod_infos c) = 0"
  shows "handle_request p c = Inl ZeroDivisionError"
  using assms by (simp add: handle_request_def parse_url_def sort_by_period_def)

theorem zero_total_raises_witness:
  "wrap_total (vod_infos ((cfg_ex ''.mpd'' (Plain ''Manifest.mpd''))\<lparr>vod_infos := []\<rparr>)) = 0 \<and>
   handle_request (provider_ex 40) ((cfg_ex ''.mpd'' (Plain ''Manifest.mpd''))\<lparr>vod_infos := []\<rparr>)
     = Inl ZeroDivisionError"
  using zero_total_raises [of "(cfg_ex ''.mpd'' (Plain ''Manifest.mpd''))\<lparr>vod_infos := []\<rparr>"
          "provider_ex 40"]
  by simp

text \<open>A media-segment request on a catalog whose only asset has wrap duration zero ends
  with the exception, not with an error response.\<close>

theorem zero_total_raises_counterexample:
  "wrap_total (vod_infos ((cfg_ex ''.m4s'' (Numbered 3 ''.m4s''))
       \<lparr>vod_infos := [asset_ex\<lparr>wrap_seconds := 0\<rparr>]\<rparr>)) = 0 \<and>
   handle_request (provider_ex 40)
     ((cfg_ex ''.m4s'' (Numbered 3 ''.m4s''))\<lparr>vod_infos := [asset_ex\<lparr>wrap_seconds := 0\<rparr>]\<rparr>)
     = Inl ZeroDivisionError"
  by (simp add: handle_request_def parse_url_def sort_by_period_def cfg_ex_def asset_ex_def)

lemma shift_by_loop:
  fixes x W D :: int
  assumes "W \<noteq> 0" "D dvd W"
  shows "(m + W div D) * D = m * D + W" "(x + W) mod W = x mod W" "(x + W) div W = x div W + 1"
  using assms by (simp_all add: algebra_simps)

subsection \<open>The segment mapping of \<open>process_media_segment\<close>\<close>

text \<open>
  Claim C6 (segment-number validation), as the code has it. The effective start
  number is 1 when the configured start number is \<open>-1\<close> and the configured one
  otherwise. A request whose number is below it is always answered with "Request for
  segment ... before first ..." (\<open>Segment_before_first\<close>). The second check comes
  after the first (lines 326-331): a request that is not below the start number,
  with terminal numbers configured and a number above their maximum, is always
  answered with "Request for segment ... beyond last (...)" (\<open>Segment_beyond_last\<close>).
\<close>

theorem segment_number_validation:
  assumes "vod_infos c = v0 # vs" "filenames c = f # fs"
    "requested_seg_nr f (seg_duration v0) (get_timescale c) = Inr n"
  shows "seg_start_nr c = (if start_nr c = - 1 then 1 else start_nr c) \<and>
         (n < seg_start_nr c \<longrightarrow>
            process_media_segment p c =
              Inr (Error_response (Segment_before_first n (seg_start_nr c)))) \<and>
         (seg_start_nr c \<le> n \<and> last_segment_numbers c \<noteq> [] \<and>
          Max (set (last_segment_numbers c)) < n \<longrightarrow>
            process_media_segment p c =
              Inr (Error_response (Segment_beyond_last n (last (last_segment_numbers c)))))"
proof -
  have "last_segment_numbers c \<noteq> [] \<Longrightarrow> Max (set (last_segment_numbers c)) < n \<Longrightarrow>
          last (last_segment_numbers c) < n"
  proof -
    assume ne: "last_segment_numbers c \<noteq> []" and mx: "Max (set (last_segment_numbers c)) < n"
    from ne have "last (last_segment_numbers c) \<in> set (last_segment_numbers c)" by simp
    then have "last (last_segment_numbers c) \<le> Max (set (last_segment_numbers c))" by simp
    with mx show ?thesis by simp
  qed
  then show ?thesis
    using pms_too_early [OF assms, of p] pms_beyond [OF assms, of p]
    by (auto simp add: seg_start_nr_def)
qed

theorem segment_number_validation_witness:
  "process_media_segment (provider_ex 60) (cfg_ex ''.m4s'' (Numbered (- 1) ''.m4s'')) =
     Inr (Error_response (Segment_before_first (- 1) 0)) \<and>
   process_media_segment (provider_ex 60)
     ((cfg_ex ''.m4s'' (Numbered 3 ''.m4s''))\<lparr>start_nr := - 1, last_segment_numbers := [1, 2]\<rparr>) =
     Inr (Error_response (Segment_beyond_last 3 2))"
  using segment_number_validation [of "cfg_ex ''.m4s'' (Numbered (- 1) ''.m4s'')" asset_ex "[]"
          "Numbered (- 1) ''.m4s''" "[]" "- 1" "provider_ex 60"]
        segment_number_validation [of
          "(cfg_ex ''.m4s'' (Numbered 3 ''.m4s''))\<lparr>start_nr := - 1, last_segment_numbers := [1, 2]\<rparr>"
          asset_ex "[]" "Numbered 3 ''.m4s''" "[]" 3 "provider_ex 60"]
  by (simp add: cfg_ex_def asset_ex_def requested_seg_nr_def seg_start_nr_def)

text \<open>With start number 5 and the terminal number 2, the request for segment 3 is above
  the terminal maximum and is answered with the before-first error.\<close>

theorem segment_number_validation_counterexample:
  "Max (set (last_segment_numbers
      ((cfg_ex ''.m4s'' (Numbered 3 ''.m4s''))\<lparr>start_nr := 5, last_segment_numbers := [2]\<rparr>))) < 3 \<and>
   process_media_segment (provider_ex 60)
     ((cfg_ex ''.m4s'' (Numbered 3 ''.m4s''))\<lparr>start_nr := 5, last_segment_numbers := [2]\<rparr>) =
     Inr (Error_response (Segment_before_first 3 5))"
  by (simp add: process_media_segment_def cfg_ex_def asset_ex_def requested_seg_nr_def
        seg_start_nr_def)

lemma pms_mapping:
  assumes "vod_infos c = v0 # vs" "filenames c = f # fs"
    "requested_seg_nr f (seg_duration v0) (get_timescale c) = Inr n"
    "seg_start_nr c \<le> n"
    "last_segment_numbers c = [] \<or> n \<le> last (last_segment_numbers c)"
    "loop_duration c \<noteq> 0" "seg_duration v0 \<noteq> 0" "initial_durations c = d0 # ds"
    "reps c \<noteq> []"
  shows "let seg_time = (n - seg_start_nr c) * seg_duration v0 + availability_start_time_in_s c;
             diff = seg_time - availability_start_time_in_s c;
             loops = diff div loop_duration c;
             time = diff mod loop_duration c;
             last_d = (if time \<ge> d0 then d0 else 0);
             seg_nr_in_loop = (time - last_d) div seg_duration v0;
             vod_nr = seg_nr_in_loop + first_segment_in_loop v0;
             offset_at_loop_start = loops * loop_duration c + last_d
         in \<exists>s. process_media_segment p c = Inr (Media_segment s) \<and> calls s \<noteq> [] \<and>
                (\<forall>k \<in> set (calls s).
                   fc_vod_nr k = vod_nr \<and>
                   fc_offset_at_loop_start k = offset_at_loop_start \<and>
                   fc_lmsg k = (n \<in> set (last_segment_numbers c)) \<and>
                   fc_seg_nr k = n)"
proof -
  define time where "time = ((n - seg_start_nr c) * seg_duration v0) mod loop_duration c"
  define last_d where "last_d = (if time \<ge> d0 then d0 else 0)"
  define vod_nr where "vod_nr = (time - last_d) div seg_duration v0 + first_segment_in_loop v0"
  define off where
    "off = ((n - seg_start_nr c) * seg_duration v0) div loop_duration c * loop_duration c + last_d"
  have pms: "process_media_segment p c =
      dispatch_media p c vod_nr n (seg_ext_of f) off (n \<in> set (last_segment_numbers c))"
    unfolding vod_nr_def off_def last_d_def time_def
    by (rule pms_accepted [OF assms(1-8)])
  from assms(1) have ne: "vod_infos c \<noteq> []" by simp
  from dispatch_media_calls [OF assms(9) ne, of p vod_nr n "seg_ext_of f" off
      "n \<in> set (last_segment_numbers c)"]
  obtain s where s: "dispatch_media p c vod_nr n (seg_ext_of f) off
        (n \<in> set (last_segment_numbers c)) = Inr (Media_segment s)"
    and len: "length (calls s) = (if length (reps c) = 1 then 1 else 2)"
    and v: "map fc_vod_nr (calls s) = replicate (length (calls s)) vod_nr"
    and o: "map fc_offset_at_loop_start (calls s) = replicate (length (calls s)) off"
    and l: "map fc_lmsg (calls s) = replicate (length (calls s)) (n \<in> set (last_segment_numbers c))"
    and q: "map fc_seg_nr (calls s) = replicate (length (calls s)) n"
    by blast
  from len have "calls s \<noteq> []" by (auto split: if_splits)
  moreover have "\<forall>k \<in> set (calls s). fc_vod_nr k = vod_nr \<and> fc_offset_at_loop_start k = off \<and>
       fc_lmsg k = (n \<in> set (last_segment_numbers c)) \<and> fc_seg_nr k = n"
  proof
    fix k assume k: "k \<in> set (calls s)"
    then have "fc_vod_nr k \<in> set (map fc_vod_nr (calls s))"
      "fc_offset_at_loop_start k \<in> set (map fc_offset_at_loop_start (calls s))"
      "fc_lmsg k \<in> set (map fc_lmsg (calls s))"
      "fc_seg_nr k \<in> set (map fc_seg_nr (calls s))" by simp_all
    then show "fc_vod_nr k = vod_nr \<and> fc_offset_at_loop_start k = off \<and>
       fc_lmsg k = (n \<in> set (last_segment_numbers c)) \<and> fc_seg_nr k = n"
      unfolding v o l q by (auto split: if_splits)
  qed
  ultimately show ?thesis using pms s
    unfolding Let_def vod_nr_def off_def last_d_def time_def by simp
qed

text \<open>
  Claim C5 (segment mapping arithmetic), as the code has it. For an accepted segment
  number \<open>n\<close>, with the effective start number \<open>eff\<close> (1 when the configured start
  number is \<open>-1\<close>), the filter calls issued carry the local segment number, the offset
  at loop start and the terminal flag computed as: \<open>seg_time = (n - eff) * seg_dur + AST\<close>;
  \<open>loops, time = divmod(seg_time - AST, loop_duration)\<close>; \<open>last\<close> is the first
  initial duration when \<open>time\<close> has reached it and 0 otherwise;
  \<open>seg_nr_in_loop = (time - last) / seg_dur\<close>; the local number is
  \<open>seg_nr_in_loop\<close> plus the first segment in loop of the asset in front;
  \<open>offset_at_loop_start = loops * loop_duration + last\<close>; and the terminal flag
  says whether \<open>n\<close> is one of the configured terminal numbers. The divisor
  \<open>loop_duration\<close> is the field \<open>cfg.loop_duration\<close> of the configuration, which
  \<open>sort_by_period\<close> leaves as it is: it is not the sum of the wrap durations of the
  asset list that \<open>sort_by_period\<close> returns.
\<close>

theorem segment_mapping_arithmetic:
  assumes "vod_infos c = v0 # vs" "filenames c = f # fs"
    "requested_seg_nr f (seg_duration v0) (get_timescale c) = Inr n"
    "(if start_nr c = - 1 then 1 else start_nr c) \<le> n"
    "last_segment_numbers c = [] \<or> n \<le> last (last_segment_numbers c)"
    "loop_duration c \<noteq> 0" "seg_duration v0 \<noteq> 0" "initial_durations c = d0 # ds"
    "reps c \<noteq> []"
  shows "(let eff = (if start_nr c = - 1 then 1 else start_nr c);
              seg_time = (n - eff) * seg_duration v0 + availability_start_time_in_s c;
              diff = seg_time - availability_start_time_in_s c;
              loops = diff div loop_duration c;
              time = diff mod loop_duration c;
              last_d = (if time \<ge> d0 then d0 else 0);
              seg_nr_in_loop = (time - last_d) div seg_duration v0;
              vod_nr = seg_nr_in_loop + first_segment_in_loop v0;
              offset_at_loop_start = loops * loop_duration c + last_d
          in \<exists>s. process_media_segment p c = Inr (Media_segment s) \<and> calls s \<noteq> [] \<and>
                 (\<forall>k \<in> set (calls s).
                    fc_vod_nr k = vod_nr \<and>
                    fc_offset_at_loop_start k = offset_at_loop_start \<and>
                    fc_lmsg k = (n \<in> set (last_segment_numbers c)) \<and>
                    fc_seg_nr k = n)) \<and>
         (\<forall>m c0. sort_by_period c0 m = Inr c \<longrightarrow> loop_duration c = loop_duration c0)"
proof -
  have eff: "seg_start_nr c = (if start_nr c = - 1 then 1 else start_nr c)"
    by (simp add: seg_start_nr_def)
  have "seg_start_nr c \<le> n" using assms(4) by (simp add: seg_start_nr_def)
  from pms_mapping [OF assms(1-3) this assms(5-9), of p]
  have "let seg_time = (n - seg_start_nr c) * seg_duration v0 + availability_start_time_in_s c;
             diff = seg_time - availability_start_time_in_s c;
             loops = diff div loop_duration c;
             time = diff mod loop_duration c;
             last_d = (if time \<ge> d0 then d0 else 0);
             seg_nr_in_loop = (time - last_d) div seg_duration v0;
             vod_nr = seg_nr_in_loop + first_segment_in_loop v0;
             offset_at_loop_start = loops * loop_duration c + last_d
         in \<exists>s. process_media_segment p c = Inr (Media_segment s) \<and> calls s \<noteq> [] \<and>
                (\<forall>k \<in> set (calls s).
                   fc_vod_nr k = vod_nr \<and>
                   fc_offset_at_loop_start k = offset_at_loop_start \<and>
                   fc_lmsg k = (n \<in> set (last_segment_numbers c)) \<and>
                   fc_seg_nr k = n)" .
  then have first: "let eff = (if start_nr c = - 1 then 1 else start_nr c);
              seg_time = (n - eff) * seg_duration v0 + availability_start_time_in_s c;
              diff = seg_time - availability_start_time_in_s c;
              loops = diff div loop_duration c;
              time = diff mod loop_duration c;
              last_d = (if time \<ge> d0 then d0 else 0);
              seg_nr_in_loop = (time - last_d) div seg_duration v0;
              vod_nr = seg_nr_in_loop + first_segment_in_loop v0;
              offset_at_loop_start = loops * loop_duration c + last_d
          in \<exists>s. process_media_segment p c = Inr (Media_segment s) \<and> calls s \<noteq> [] \<and>
                 (\<forall>k \<in> set (calls s).
                    fc_vod_nr k = vod_nr \<and>
                    fc_offset_at_loop_start k = offset_at_loop_start \<and>
                    fc_lmsg k = (n \<in> set (last_segment_numbers c)) \<and>
                    fc_seg_nr k = n)"
    unfolding eff Let_def .
  have "\<forall>m c0. sort_by_period c0 m = Inr c \<longrightarrow> loop_duration c = loop_duration c0"
    using sort_by_period_keeps(12) by blast
  with first show ?thesis by blast
qed

theorem segment_mapping_arithmetic_witness:
  "(\<exists>s. process_media_segment (provider_ex 60) cfg13 = Inr (Media_segment s) \<and> calls s \<noteq> [] \<and>
        (\<forall>k \<in> set (calls s).
           fc_vod_nr k = 2 \<and> fc_offset_at_loop_start k = 48 \<and> fc_lmsg k = True \<and>
           fc_seg_nr k = 13)) \<and>
   (\<exists>s. process_media_segment (provider_ex 60)
          (cfg13\<lparr>start_nr := - 1, filenames := [Numbered 14 ''.m4s'']\<rparr>) = Inr (Media_segment s) \<and>
        calls s \<noteq> [] \<and>
        (\<forall>k \<in> set (calls s).
           fc_vod_nr k = 2 \<and> fc_offset_at_loop_start k = 48 \<and> fc_lmsg k = False \<and>
           fc_seg_nr k = 14))"
  using segment_mapping_arithmetic [THEN conjunct1,
          of cfg13 asset_ex "[]" "Numbered 13 ''.m4s''" "[]" 13 8 "[]" "provider_ex 60"]
        segment_mapping_arithmetic [THEN conjunct1,
          of "cfg13\<lparr>start_nr := - 1, filenames := [Numbered 14 ''.m4s'']\<rparr>"
          asset_ex "[]" "Numbered 14 ''.m4s''" "[]" 14 8 "[]" "provider_ex 60"]
  by (simp add: cfg13_def cfg_ex_def asset_ex_def requested_seg_nr_def Let_def)

text \<open>
  The request for segment 13 at \<open>now = 100\<close>: \<open>sort_by_period\<close> returns two copies of the
  40 s asset (sum of the wrap durations 80) and the loop duration stays 40. The
  calls carry the local number 2 and the offset 48, computed with the divisor 40;
  with the divisor 80 the formula gives the local number 12 and the offset 8.
\<close>

theorem segment_mapping_arithmetic_counterexample:
  "sort_by_period cfg13 100 =
     Inr (cfg13\<lparr>vod_infos := [asset_ex, asset_ex],
                filenames := [Numbered 13 ''.m4s'', Numbered 13 ''.m4s''],
                start_from_ast := 40\<rparr>) \<and>
   wrap_total [asset_ex, asset_ex] = 80 \<and>
   loop_duration cfg13 = 40 \<and>
   parse_url (provider_ex 100) cfg13 =
     Inr (Media_segment (Filtered
       \<lparr>media_seg_file = (''/content'', ''testpic'', ''V1'', 2, ''.m4s''),
        fc_seg_nr = 13, fc_seg_duration = 4, fc_offset_at_loop_start = 48, fc_lmsg = True,
        fc_timescale = 90000, fc_scte35_per_minute = 0, fc_rel_path = ''V1'',
        fc_is_ttml = False\<rparr>)) \<and>
   (((13 - 0) * 4 + 0 - 0) mod 80 - 8) div 4 + first_segment_in_loop asset_ex = (12 :: int) \<and>
   ((13 - 0) * 4 + 0 - 0) div 80 * 80 + 8 = (8 :: int)"
  by (simp add: eval_defs cfg13_def)

text \<open>
  Claim C10 (loop periodicity). For a single-asset catalog with wrap duration \<open>W\<close>
  (the loop duration) and segment duration \<open>D\<close> dividing \<open>W\<close>, the accepted
  segment numbers \<open>n\<close> and \<open>n + W / D\<close> are mapped to the same local segment
  number, and to offsets at loop start that differ by exactly \<open>W\<close>.
\<close>

theorem loop_periodicity:
  assumes "vod_infos c = [a]" "loop_duration c = wrap_seconds a"
    "wrap_seconds a \<noteq> 0" "seg_duration a \<noteq> 0" "seg_duration a dvd wrap_seconds a"
    "initial_durations c \<noteq> []" "reps c \<noteq> []"
    "seg_start_nr c \<le> n" "seg_start_nr c \<le> n + wrap_seconds a div seg_duration a"
    "last_segment_numbers c = [] \<or>
       (n \<le> last (last_segment_numbers c) \<and>
        n + wrap_seconds a div seg_duration a \<le> last (last_segment_numbers c))"
  shows "\<exists>s s'.
           process_media_segment p (c\<lparr>filenames := [Numbered n e]\<rparr>) = Inr (Media_segment s) \<and>
           process_media_segment p
             (c\<lparr>filenames := [Numbered (n + wrap_seconds a div seg_duration a) e]\<rparr>)
             = Inr (Media_segment s') \<and>
           calls s \<noteq> [] \<and> length (calls s') = length (calls s) \<and>
           map fc_vod_nr (calls s') = map fc_vod_nr (calls s) \<and>
           map fc_offset_at_loop_start (calls s') =
             map (\<lambda>k. fc_offset_at_loop_start k + wrap_seconds a) (calls s)"
proof -
  define W where "W = wrap_seconds a"
  define D where "D = seg_duration a"
  define m where "m = n - seg_start_nr c"
  define c1 where "c1 = c\<lparr>filenames := [Numbered n e]\<rparr>"
  define c2 where "c2 = c\<lparr>filenames := [Numbered (n + W div D) e]\<rparr>"
  from assms(6) obtain d0 ds where d: "initial_durations c = d0 # ds"
    by (cases "initial_durations c") auto
  define last_d where "last_d = (if (m * D) mod W \<ge> d0 then d0 else 0)"
  define vn where "vn = ((m * D) mod W - last_d) div D + first_segment_in_loop a"
  define off where "off = (m * D) div W * W + last_d"
  have W0: "W \<noteq> 0" and D0: "D \<noteq> 0" and dv: "D dvd W"
    using assms(3,4,5) by (simp_all add: W_def D_def)
  have sh: "(n + W div D - seg_start_nr c) * D = m * D + W"
    using shift_by_loop(1) [OF W0 dv, of m] by (simp add: m_def algebra_simps)
  have md: "(m * D + W) mod W = (m * D) mod W" and dd: "(m * D + W) div W = (m * D) div W + 1"
    using shift_by_loop(2,3) [OF W0 dv] by simp_all
  have p1: "process_media_segment p c1 =
      dispatch_media p c1 vn n e off (n \<in> set (last_segment_numbers c))"
  proof -
    have "process_media_segment p c1 =
     dispatch_media p c1
       ((((n - seg_start_nr c1) * seg_duration a) mod loop_duration c1
           - (if ((n - seg_start_nr c1) * seg_duration a) mod loop_duration c1 \<ge> d0
              then d0 else 0))
          div seg_duration a + first_segment_in_loop a)
       n (seg_ext_of (Numbered n e))
       (((n - seg_start_nr c1) * seg_duration a) div loop_duration c1 * loop_duration c1
           + (if ((n - seg_start_nr c1) * seg_duration a) mod loop_duration c1 \<ge> d0
              then d0 else 0))
       (n \<in> set (last_segment_numbers c1))"
      using assms(1,2,8,10) d W0 D0
      by (intro pms_accepted [of c1 a "[]" "Numbered n e" "[]" n d0 ds p])
         (auto simp add: c1_def requested_seg_nr_def seg_start_nr_def W_def D_def split: if_splits)
    moreover have "seg_start_nr c1 = seg_start_nr c" "loop_duration c1 = W"
      "last_segment_numbers c1 = last_segment_numbers c" "seg_duration a = D"
      using assms(2) by (simp_all add: c1_def seg_start_nr_def W_def D_def)
    ultimately show ?thesis
      by (simp add: seg_ext_of_def vn_def off_def last_d_def m_def)
  qed
  have p2: "process_media_segment p c2 =
      dispatch_media p c2 vn (n + W div D) e (off + W)
        (n + W div D \<in> set (last_segment_numbers c))"
  proof -
    have "process_media_segment p c2 =
     dispatch_media p c2
       ((((n + W div D - seg_start_nr c2) * seg_duration a) mod loop_duration c2
           - (if ((n + W div D - seg_start_nr c2) * seg_duration a) mod loop_duration c2 \<ge> d0
              then d0 else 0))
          div seg_duration a + first_segment_in_loop a)
       (n + W div D) (seg_ext_of (Numbered (n + W div D) e))
       (((n + W div D - seg_start_nr c2) * seg_duration a) div loop_duration c2 * loop_duration c2
           + (if ((n + W div D - seg_start_nr c2) * seg_duration a) mod loop_duration c2 \<ge> d0
              then d0 else 0))
       (n + W div D \<in> set (last_segment_numbers c2))"
      using assms(1,2,9,10) d W0 D0
      by (intro pms_accepted [of c2 a "[]" "Numbered (n + W div D) e" "[]" "n + W div D" d0 ds p])
         (auto simp add: c2_def requested_seg_nr_def seg_start_nr_def W_def D_def split: if_splits)
    moreover have "seg_start_nr c2 = seg_start_nr c" "loop_duration c2 = W"
      "last_segment_numbers c2 = last_segment_numbers c" "seg_duration a = D"
      using assms(2) by (simp_all add: c2_def seg_start_nr_def W_def D_def)
    ultimately have "process_media_segment p c2 =
     dispatch_media p c2
       (((m * D) mod W - (if (m * D) mod W \<ge> d0 then d0 else 0)) div D + first_segment_in_loop a)
       (n + W div D) (seg_ext_of (Numbered (n + W div D) e))
       (((m * D) div W + 1) * W + (if (m * D) mod W \<ge> d0 then d0 else 0))
       (n + W div D \<in> set (last_segment_numbers c))"
      by (simp only: sh md dd)
    then show ?thesis
      by (simp add: seg_ext_of_def vn_def off_def last_d_def distrib_right add_ac)
  qed
  have ne1: "reps c1 \<noteq> []" "vod_infos c1 \<noteq> []" and ne2: "reps c2 \<noteq> []" "vod_infos c2 \<noteq> []"
    and r12: "reps c2 = reps c1"
    using assms(1,7) by (simp_all add: c1_def c2_def)
  from dispatch_media_calls [OF ne1, of p vn n e off "n \<in> set (last_segment_numbers c)"]
  obtain s where s: "dispatch_media p c1 vn n e off (n \<in> set (last_segment_numbers c))
        = Inr (Media_segment s)"
    and len: "length (calls s) = (if length (reps c1) = 1 then 1 else 2)"
    and v: "map fc_vod_nr (calls s) = replicate (length (calls s)) vn"
    and o: "map fc_offset_at_loop_start (calls s) = replicate (length (calls s)) off"
    by blast
  from dispatch_media_calls [OF ne2, of p vn "n + W div D" e "off + W"
      "n + W div D \<in> set (last_segment_numbers c)"]
  obtain s' where s': "dispatch_media p c2 vn (n + W div D) e (off + W)
        (n + W div D \<in> set (last_segment_numbers c)) = Inr (Media_segment s')"
    and len': "length (calls s') = (if length (reps c2) = 1 then 1 else 2)"
    and v': "map fc_vod_nr (calls s') = replicate (length (calls s')) vn"
    and o': "map fc_offset_at_loop_start (calls s') = replicate (length (calls s')) (off + W)"
    by blast
  have ll: "length (calls s') = length (calls s)" using len len' r12 by simp
  have "calls s \<noteq> []" using len by (auto split: if_splits)
  moreover have "map fc_vod_nr (calls s') = map fc_vod_nr (calls s)" using v v' ll by simp
  moreover have "map fc_offset_at_loop_start (calls s') =
             map (\<lambda>k. fc_offset_at_loop_start k + W) (calls s)"
  proof -
    have "map (\<lambda>k. fc_offset_at_loop_start k + W) (calls s) =
          map (\<lambda>x. x + W) (map fc_offset_at_loop_start (calls s))" by (simp add: comp_def)
    also have "\<dots> = replicate (length (calls s)) (off + W)" unfolding o by simp
    finally show ?thesis using o' ll by simp
  qed
  ultimately show ?thesis using p1 p2 s s' ll
    unfolding c1_def c2_def W_def D_def by auto
qed

theorem loop_periodicity_witness:
  "\<exists>s s'.
     process_media_segment (provider_ex 60) ((cfg_ex ''.m4s'' (Plain ''x''))\<lparr>filenames := [Numbered 3 ''.m4s'']\<rparr>)
       = Inr (Media_segment s) \<and>
     process_media_segment (provider_ex 60) ((cfg_ex ''.m4s'' (Plain ''x''))\<lparr>filenames := [Numbered 13 ''.m4s'']\<rparr>)
       = Inr (Media_segment s') \<and>
     calls s \<noteq> [] \<and>
     map fc_vod_nr (calls s') = map fc_vod_nr (calls s) \<and>
     map fc_offset_at_loop_start (calls s') = map (\<lambda>k. fc_offset_at_loop_start k + 40) (calls s)"
proof -
  have "\<exists>s s'.
           process_media_segment (provider_ex 60) ((cfg_ex ''.m4s'' (Plain ''x''))\<lparr>filenames := [Numbered 3 ''.m4s'']\<rparr>) = Inr (Media_segment s) \<and>
           process_media_segment (provider_ex 60)
             ((cfg_ex ''.m4s'' (Plain ''x''))\<lparr>filenames := [Numbered (3 + wrap_seconds asset_ex div seg_duration asset_ex) ''.m4s'']\<rparr>)
             = Inr (Media_segment s') \<and>
           calls s \<noteq> [] \<and> length (calls s') = length (calls s) \<and>
           map fc_vod_nr (calls s') = map fc_vod_nr (calls s) \<and>
           map fc_offset_at_loop_start (calls s') =
             map (\<lambda>k. fc_offset_at_loop_start k + wrap_seconds asset_ex) (calls s)"
    by (rule loop_periodicity [of "cfg_ex ''.m4s'' (Plain ''x'')" asset_ex 3 "provider_ex 60" "''.m4s''"])
       (simp_all add: cfg_ex_def asset_ex_def seg_start_nr_def)
  then show ?thesis by (simp add: asset_ex_def) blast
qed




subsection \<open>Requests through \<open>parse_url\<close>\<close>




text \<open>
  Claim C3 (scenario A), as the code has it. With availability start time 0, segment
  duration 4, start number 0 and availability time offset \<open>-1\<close>, at \<open>now = 40\<close> a
  media-segment request on a single-asset catalog is accepted for every segment
  number \<open>n \<ge> 0\<close>: for 0 to 9 and for 10 as well. The only too-early check of the
  media path compares \<open>now\<close> with the first segment's availability time (0 here);
  the check of each segment's own availability time is commented out.
\<close>

theorem scenario_A_segments_accepted:
  assumes "ext c = ''.m4s''" "availability_start_time_in_s c = 0" "start_nr c = 0"
    "availability_time_offset_in_s c = Int_offset (- 1)" "now_float p = 40"
    "vod_infos c = [a]" "seg_duration a = 4" "0 < wrap_seconds a"
    "filenames c = [Numbered n e]" "availability_end_time c = None" "multi_url c = []"
    "last_segment_numbers c = []" "loop_duration c \<noteq> 0" "initial_durations c \<noteq> []"
    "reps c \<noteq> []" "0 \<le> n"
  shows "\<exists>s. parse_url p c = Inr (Media_segment s)"
proof -
  have np: "now p = 40" using assms(5) by (simp add: now_def py_int_def)
  obtain c' where s: "sort_by_period c (now p) = Inr c'"
    and v: "vod_infos c' = a # tl (vod_infos c')"
    and f: "filenames c' = Numbered n e # tl (filenames c')"
    using sbp_single [of c a "now p"] assms(6,7,8,9) by (cases "now p - availability_start_time_in_s c \<le> wrap_seconds a") simp_all
  note keep = sort_by_period_keeps [OF s]
  have fsa: "first_segment_ast c' = Inr (Py_int 0)"
    using assms(2,4) by (simp add: first_segment_ast_def keep)
  have g: "num_value (Py_int 0) \<le> now_float p" using assms(5) by simp
  have aet: "availability_end_time c = None \<or>
       now p \<le> the (availability_end_time c) + EXTRA_TIME_AFTER_END_IN_S"
    using assms(10) by simp
  have d: "seg_duration a \<noteq> 0" using assms(7) by simp
  from media_request_accepted [OF s assms(1) fsa g aet assms(11) v d f assms(13,14,15)]
  show ?thesis using assms(3,12,16) by (simp add: seg_start_nr_def)
qed

theorem scenario_A_segments_accepted_witness:
  "\<exists>s. parse_url (provider_ex 40) (cfg_ex ''.m4s'' (Numbered 9 ''.m4s'')) = Inr (Media_segment s)"
  by (rule scenario_A_segments_accepted [where a = asset_ex and n = 9 and e = "''.m4s''"])
     (simp_all add: cfg_ex_def asset_ex_def provider_ex_def)

text \<open>At \<open>now = 40\<close> the request for segment 10 is answered with the filter call on VoD
  segment 1, not with an error.\<close>

theorem scenario_A_segment_10_counterexample:
  "parse_url (provider_ex 40) (cfg_ex ''.m4s'' (Numbered 10 ''.m4s'')) =
     Inr (Media_segment (Filtered
       \<lparr>media_seg_file = (''/content'', ''testpic'', ''V1'', 1, ''.m4s''),
        fc_seg_nr = 10, fc_seg_duration = 4, fc_offset_at_loop_start = 40, fc_lmsg = False,
        fc_timescale = 90000, fc_scte35_per_minute = 0, fc_rel_path = ''V1'',
        fc_is_ttml = False\<rparr>))"
  by (simp add: eval_defs)




subsection \<open>The number of representations\<close>

text \<open>
  Claim C9 (representation count), at three and at zero representations. On the
  media path the branch for \<open>nr_reps == 1\<close> is followed by a plain \<open>else\<close>: with
  three representations the request is answered with the muxed filter calls on the
  first two, and with none \<open>cfg.reps[0]\<close> raises \<open>IndexError\<close>. On the init path
  the same count is answered with "Bad nr of representations: 3".
\<close>

theorem media_path_other_representation_counts:
  "handle_request (provider_ex 60)
     ((cfg_ex ''.m4s'' (Numbered 13 ''.m4s''))\<lparr>reps := [rep_video, rep_audio, rep_subs]\<rparr>) =
     Inr (Media_segment (Muxed
       \<lparr>media_seg_file = (''/content'', ''testpic'', ''V1'', 4, ''.m4s''),
        fc_seg_nr = 13, fc_seg_duration = 4, fc_offset_at_loop_start = 40, fc_lmsg = False,
        fc_timescale = 90000, fc_scte35_per_minute = 0, fc_rel_path = ''V1'',
        fc_is_ttml = False\<rparr>
       \<lparr>media_seg_file = (''/content'', ''testpic'', ''A1'', 4, ''.m4s''),
        fc_seg_nr = 13, fc_seg_duration = 4, fc_offset_at_loop_start = 40, fc_lmsg = False,
        fc_timescale = 48000, fc_scte35_per_minute = 0, fc_rel_path = ''A1'',
        fc_is_ttml = False\<rparr>)) \<and>
   handle_request (provider_ex 60) ((cfg_ex ''.m4s'' (Numbered 13 ''.m4s''))\<lparr>reps := []\<rparr>) =
     Inl IndexError \<and>
   handle_request (provider_ex 60)
     ((cfg_ex ''.mp4'' (Plain ''init.mp4''))\<lparr>reps := [rep_video, rep_audio, rep_subs]\<rparr>) =
     Inr (Error_response (Bad_nr_reps 3))"
  by (simp add: eval_defs process_init_segment_def)

end
